theory Spec2Isabelle
  imports Main "HOL-Library.Word"
begin

unbundle bit_operations_syntax

section \<open>Go strings\<close>

text \<open>
  A Go string is a sequence of bytes; it is modelled as a \<^typ>\<open>string\<close>, a list of
  8-bit characters. The functions of package \<open>strings\<close> that the repository calls are
  written out below. \<open>ToLower\<close> and \<open>TrimSpace\<close> are the byte-wise (ASCII) paths of
  the Go functions: a byte of value 128 or more is neither a letter nor a space here,
  where Go would consult its Unicode tables for the rune the byte belongs to.
  An upper-case ASCII letter has bit 5 clear, and setting it adds \<open>'a' - 'A'\<close>.
\<close>

definition HasPrefix :: "string \<Rightarrow> string \<Rightarrow> bool" where
  "HasPrefix s p = (length p \<le> length s \<and> take (length p) s = p)"

definition HasSuffix :: "string \<Rightarrow> string \<Rightarrow> bool" where
  "HasSuffix s x = (length x \<le> length s \<and> drop (length s - length x) s = x)"

definition TrimSuffix :: "string \<Rightarrow> string \<Rightarrow> string" where
  "TrimSuffix s x = (if HasSuffix s x then take (length s - length x) s else s)"

fun Contains :: "string \<Rightarrow> string \<Rightarrow> bool" where
  "Contains [] sub = (sub = [])"
| "Contains (c # cs) sub = (HasPrefix (c # cs) sub \<or> Contains cs sub)"

text \<open>\<open>strings.Replace(s, old, new, 1)\<close> for a non-empty \<open>old\<close>: the first occurrence.\<close>

fun Replace1 :: "string \<Rightarrow> string \<Rightarrow> string \<Rightarrow> string" where
  "Replace1 [] old new = (if old = [] then new else [])"
| "Replace1 (c # cs) old new =
     (if HasPrefix (c # cs) old then new @ drop (length old) (c # cs)
      else c # Replace1 cs old new)"

definition lower_byte :: "char \<Rightarrow> char" where
  "lower_byte c =
     (if 65 \<le> (of_char c :: nat) \<and> (of_char c :: nat) \<le> 90
      then (case c of Char b0 b1 b2 b3 b4 b5 b6 b7 \<Rightarrow> Char b0 b1 b2 b3 b4 True b6 b7)
      else c)"

definition ToLower :: "string \<Rightarrow> string" where
  "ToLower s = map lower_byte s"

text \<open>Go's \<open>asciiSpace\<close> table: tab, line feed, vertical tab, form feed, carriage return, space.\<close>

definition asciiSpace :: "char \<Rightarrow> bool" where
  "asciiSpace c = (of_char c \<in> {9, 10, 11, 12, 13, 32::nat})"

definition TrimSpace :: "string \<Rightarrow> string" where
  "TrimSpace s = rev (dropWhile asciiSpace (rev (dropWhile asciiSpace s)))"

text \<open>\<open>strings.Split\<close> with a separator of one byte.\<close>

fun split_on :: "char \<Rightarrow> string \<Rightarrow> string list" where
  "split_on sep [] = [[]]"
| "split_on sep (c # cs) =
     (if c = sep then [] # split_on sep cs
      else (case split_on sep cs of
              [] \<Rightarrow> [[c]]
            | w # ws \<Rightarrow> (c # w) # ws))"

section \<open>SHA-256 and the document id\<close>

type_synonym u32 = "32 word"
type_synonym byte = "8 word"

definition rotr :: "nat \<Rightarrow> u32 \<Rightarrow> u32" where
  "rotr n x = word_rotr n x"

text \<open>
  The round constants: the first 32 bits of the fractional parts of the cube roots of
  the first 64 primes, and as the initial state those of the square roots of the first
  8 primes.
\<close>

definition K256 :: "u32 list" where
  "K256 =
  [1116352408, 1899447441, 3049323471, 3921009573, 961987163, 1508970993,
   2453635748, 2870763221, 3624381080, 310598401, 607225278, 1426881987,
   1925078388, 2162078206, 2614888103, 3248222580, 3835390401, 4022224774,
   264347078, 604807628, 770255983, 1249150122, 1555081692, 1996064986,
   2554220882, 2821834349, 2952996808, 3210313671, 3336571891, 3584528711,
   113926993, 338241895, 666307205, 773529912, 1294757372, 1396182291,
   1695183700, 1986661051, 2177026350, 2456956037, 2730485921, 2820302411,
   3259730800, 3345764771, 3516065817, 3600352804, 4094571909, 275423344,
   430227734, 506948616, 659060556, 883997877, 958139571, 1322822218,
   1537002063, 1747873779, 1955562222, 2024104815, 2227730452, 2361852424,
   2428436474, 2756734187, 3204031479, 3329325298]"

type_synonym digest = "u32 \<times> u32 \<times> u32 \<times> u32 \<times> u32 \<times> u32 \<times> u32 \<times> u32"

definition init256 :: digest where
  "init256 = (1779033703, 3144134277, 1013904242, 2773480762,
              1359893119, 2600822924, 528734635, 1541459225)"

text \<open>Padding: the byte 0x80, zero bytes up to 56 modulo 64, the bit length in 8 bytes.\<close>

definition be64 :: "64 word \<Rightarrow> byte list" where
  "be64 n = map (\<lambda>i. ucast (drop_bit (8 * (7 - i)) n)) [0..<8]"

definition pad256 :: "byte list \<Rightarrow> byte list" where
  "pad256 m =
     m @ [0x80] @ replicate ((55 + 64 - length m mod 64) mod 64) 0
       @ be64 (push_bit 3 (of_nat (length m)))"

fun blocks64 :: "nat \<Rightarrow> byte list \<Rightarrow> byte list list" where
  "blocks64 0 bs = []"
| "blocks64 (Suc n) bs = take 64 bs # blocks64 n (drop 64 bs)"

definition be32 :: "byte list \<Rightarrow> u32" where
  "be32 bs = foldl (\<lambda>acc b. push_bit 8 acc OR ucast b) 0 (take 4 bs)"

definition block_words :: "byte list \<Rightarrow> u32 list" where
  "block_words b = map (\<lambda>i. be32 (drop (4 * i) b)) [0..<16]"

definition ssig0 :: "u32 \<Rightarrow> u32" where
  "ssig0 x = rotr 7 x XOR rotr 18 x XOR drop_bit 3 x"

definition ssig1 :: "u32 \<Rightarrow> u32" where
  "ssig1 x = rotr 17 x XOR rotr 19 x XOR drop_bit 10 x"

definition bsig0 :: "u32 \<Rightarrow> u32" where
  "bsig0 x = rotr 2 x XOR rotr 13 x XOR rotr 22 x"

definition bsig1 :: "u32 \<Rightarrow> u32" where
  "bsig1 x = rotr 6 x XOR rotr 11 x XOR rotr 25 x"

fun schedule :: "nat \<Rightarrow> u32 list \<Rightarrow> u32 list" where
  "schedule 0 w = w"
| "schedule (Suc n) w =
     schedule n (w @ [ssig1 (w ! (length w - 2)) + w ! (length w - 7)
                      + ssig0 (w ! (length w - 15)) + w ! (length w - 16)])"

definition round256 :: "digest \<Rightarrow> u32 \<times> u32 \<Rightarrow> digest" where
  "round256 s kw =
     (case s of (a, b, c, d, e, f, g, h) \<Rightarrow>
        let t1 = h + bsig1 e + ((e AND f) XOR (NOT e AND g)) + fst kw + snd kw;
            t2 = bsig0 a + ((a AND b) XOR (a AND c) XOR (b AND c))
        in (t1 + t2, a, b, c, d + t1, e, f, g))"

definition add_digest :: "digest \<Rightarrow> digest \<Rightarrow> digest" where
  "add_digest s t =
     (case s of (a, b, c, d, e, f, g, h) \<Rightarrow>
      case t of (a', b', c', d', e', f', g', h') \<Rightarrow>
        (a + a', b + b', c + c', d + d', e + e', f + f', g + g', h + h'))"

definition compress256 :: "digest \<Rightarrow> byte list \<Rightarrow> digest" where
  "compress256 s b =
     add_digest s (foldl round256 s (zip K256 (schedule 48 (block_words b))))"

definition word_bytes :: "u32 \<Rightarrow> byte list" where
  "word_bytes w = [ucast (drop_bit 24 w), ucast (drop_bit 16 w), ucast (drop_bit 8 w), ucast w]"

definition digest_bytes :: "digest \<Rightarrow> byte list" where
  "digest_bytes s =
     (case s of (a, b, c, d, e, f, g, h) \<Rightarrow>
        word_bytes a @ word_bytes b @ word_bytes c @ word_bytes d
        @ word_bytes e @ word_bytes f @ word_bytes g @ word_bytes h)"

definition Sum256 :: "string \<Rightarrow> byte list" where
  "Sum256 s =
     (let m = pad256 (map of_char s)
      in digest_bytes (foldl compress256 init256 (blocks64 (length m div 64) m)))"

definition hexdigit :: "nat \<Rightarrow> char" where
  "hexdigit n = ''0123456789abcdef'' ! (n mod 16)"

definition EncodeToString :: "byte list \<Rightarrow> string" where
  "EncodeToString bs = concat (map (\<lambda>b. [hexdigit (unat b div 16), hexdigit (unat b)]) bs)"

text \<open>\<open>GenerateDocumentID\<close> of \<open>pkg/models/document.go\<close>.\<close>

definition GenerateDocumentID :: "string \<Rightarrow> string" where
  "GenerateDocumentID url = take 16 (EncodeToString (Sum256 url))"

section \<open>Regular expressions\<close>

text \<open>
  The three patterns of \<open>hasMarkdownPatterns\<close> are compiled by Go's \<open>regexp\<close>. A
  pattern is modelled by its syntax tree over byte classes and matched by derivatives.
  \<open>MatchString\<close> reports whether some substring matches, so a pattern is a tree together
  with the place where a match may begin: anywhere, at the beginning of the text
  (\<open>^\<close>) or at the beginning of a line (\<open>^\<close> under the flag \<open>(?m)\<close>).
\<close>

datatype rexp =
  Zero
  | One
  | Atom "char \<Rightarrow> bool"
  | Plus rexp rexp
  | Times rexp rexp
  | Star rexp

fun nullable :: "rexp \<Rightarrow> bool" where
  "nullable Zero = False"
| "nullable One = True"
| "nullable (Atom p) = False"
| "nullable (Plus r s) = (nullable r \<or> nullable s)"
| "nullable (Times r s) = (nullable r \<and> nullable s)"
| "nullable (Star r) = True"

text \<open>Sums and products that drop the empty language and the empty word as they are built.\<close>

fun splus :: "rexp \<Rightarrow> rexp \<Rightarrow> rexp" where
  "splus Zero s = s"
| "splus r Zero = r"
| "splus r s = Plus r s"

fun stimes :: "rexp \<Rightarrow> rexp \<Rightarrow> rexp" where
  "stimes Zero s = Zero"
| "stimes One s = s"
| "stimes r s = Times r s"

fun deriv :: "char \<Rightarrow> rexp \<Rightarrow> rexp" where
  "deriv c Zero = Zero"
| "deriv c One = Zero"
| "deriv c (Atom p) = (if p c then One else Zero)"
| "deriv c (Plus r s) = splus (deriv c r) (deriv c s)"
| "deriv c (Times r s) =
     (if nullable r then splus (stimes (deriv c r) s) (deriv c s) else stimes (deriv c r) s)"
| "deriv c (Star r) = stimes (deriv c r) (Star r)"

fun matches :: "rexp \<Rightarrow> string \<Rightarrow> bool" where
  "matches r [] = nullable r"
| "matches r (c # cs) = matches (deriv c r) cs"

datatype anchor = Anywhere | TextStart | LineStart

definition is_newline :: "char \<Rightarrow> bool" where
  "is_newline c = (of_char c = (10::nat))"

definition any_bytes :: rexp where
  "any_bytes = Star (Atom (\<lambda>c. True))"

fun MatchString :: "anchor \<times> rexp \<Rightarrow> string \<Rightarrow> bool" where
  "MatchString (Anywhere, r) s = matches (Times any_bytes (Times r any_bytes)) s"
| "MatchString (TextStart, r) s = matches (Times r any_bytes) s"
| "MatchString (LineStart, r) s =
     matches (Times (Plus One (Times any_bytes (Atom is_newline))) (Times r any_bytes)) s"

text \<open>The class \<open>\s\<close> of Go's syntax is \<open>[\t\n\f\r ]\<close>, and \<open>.\<close> is any character but a line feed.\<close>

definition re_space :: "char \<Rightarrow> bool" where
  "re_space c = (of_char c \<in> {9, 10, 12, 13, 32::nat})"

definition re_nonspace :: "char \<Rightarrow> bool" where
  "re_nonspace c = (\<not> re_space c)"

definition re_dot :: "char \<Rightarrow> bool" where
  "re_dot c = (\<not> is_newline c)"

definition re_chr :: "char \<Rightarrow> rexp" where
  "re_chr a = Atom (\<lambda>c. c = a)"

definition re_plus :: "rexp \<Rightarrow> rexp" where
  "re_plus r = Times r (Star r)"

text \<open>\<open>r{1,n+1}\<close>: one \<open>r\<close>, then up to \<open>n\<close> more.\<close>

fun re_upto :: "nat \<Rightarrow> rexp \<Rightarrow> rexp" where
  "re_upto 0 r = One"
| "re_upto (Suc n) r = Plus One (Times r (re_upto n r))"

text \<open>\<^verbatim>\<open>^#{1,6}\s+\S\<close>\<close>

definition header_pattern :: "anchor \<times> rexp" where
  "header_pattern =
     (TextStart,
      Times (Times (re_chr CHR ''#'') (re_upto 5 (re_chr CHR ''#'')))
        (Times (re_plus (Atom re_space)) (Atom re_nonspace)))"

text \<open>\<^verbatim>\<open>(?m)^[\-\*]\s+\S\<close>\<close>

definition list_pattern :: "anchor \<times> rexp" where
  "list_pattern =
     (LineStart,
      Times (Atom (\<lambda>c. c = CHR ''-'' \<or> c = CHR ''*''))
        (Times (re_plus (Atom re_space)) (Atom re_nonspace)))"

text \<open>\<^verbatim>\<open>\[.+?\]\(.+?\)\<close>\<close>

definition link_pattern :: "anchor \<times> rexp" where
  "link_pattern =
     (Anywhere,
      Times (re_chr CHR ''['')
        (Times (re_plus (Atom re_dot))
          (Times (re_chr CHR '']'')
            (Times (re_chr CHR ''('')
              (Times (re_plus (Atom re_dot)) (re_chr CHR '')''))))))"

text \<open>The words a syntax tree denotes, by which the matcher is justified below.\<close>

definition conc :: "string set \<Rightarrow> string set \<Rightarrow> string set" where
  "conc A B = {xs @ ys | xs ys. xs \<in> A \<and> ys \<in> B}"

inductive_set star :: "string set \<Rightarrow> string set" for A :: "string set" where
  star_empty: "[] \<in> star A"
| star_step: "a \<in> A \<Longrightarrow> w \<in> star A \<Longrightarrow> a @ w \<in> star A"

fun lang :: "rexp \<Rightarrow> string set" where
  "lang Zero = {}"
| "lang One = {[]}"
| "lang (Atom p) = {[c] | c. p c}"
| "lang (Plus r s) = lang r \<union> lang s"
| "lang (Times r s) = conc (lang r) (lang s)"
| "lang (Star r) = star (lang r)"

section \<open>The content classifier (internal/markdown/detector.go)\<close>

definition IsMarkdownContentType :: "string \<Rightarrow> bool" where
  "IsMarkdownContentType contentType =
     (let ct = ToLower contentType
      in HasPrefix ct ''text/markdown'' \<or> HasPrefix ct ''text/x-markdown'')"

definition IsMarkdownURL :: "string \<Rightarrow> bool" where
  "IsMarkdownURL url =
     (let lower = ToLower url
      in HasSuffix lower ''.md'' \<or> HasSuffix lower ''.markdown'')"

definition looksLikeHTML :: "string \<Rightarrow> bool" where
  "looksLikeHTML content =
     (let lower = ToLower content
      in HasPrefix lower ''<!doctype'' \<or> HasPrefix lower ''<html''
         \<or> HasPrefix lower ''<head'' \<or> HasPrefix lower ''<body'')"

definition hasMarkdownPatterns :: "string \<Rightarrow> bool" where
  "hasMarkdownPatterns content =
     (if MatchString header_pattern content then True
      else if MatchString list_pattern content then True
      else if MatchString link_pattern content then True
      else False)"

definition IsMarkdownContent :: "string \<Rightarrow> bool" where
  "IsMarkdownContent content =
     (if content = [] then False
      else let trimmed = TrimSpace content
           in if looksLikeHTML trimmed then False else hasMarkdownPatterns trimmed)"

definition MarkdownURLVariants :: "string \<Rightarrow> string list" where
  "MarkdownURLVariants url =
     (if Contains url ''github.com'' \<and> Contains url ''/blob/''
      then [Replace1 (Replace1 url ''github.com'' ''raw.githubusercontent.com'') ''/blob/'' ''/'']
      else if IsMarkdownURL url then []
      else [TrimSuffix url ''/'' @ ''.md''])"

definition Detect :: "string \<Rightarrow> string \<Rightarrow> string \<Rightarrow> bool" where
  "Detect url contentType content =
     (if IsMarkdownContentType contentType then True
      else if IsMarkdownURL url then True
      else IsMarkdownContent content)"

section \<open>The classification stated without regular expressions\<close>

text \<open>
  What the three patterns look for, as decompositions of the text: a heading at the
  very beginning (one to six \<open>#\<close>, then white space, then a character that is not
  white space), a bullet at the beginning of the text or of a line (\<open>-\<close> or \<open>*\<close>, then
  white space, then a character that is not white space), and a link anywhere (\<open>[\<close>,
  text, \<open>](\<close>, text, \<open>)\<close>, both texts non-empty and without a line feed). White space
  is the class \<open>\s\<close> and includes the line feed.
\<close>

definition begins_with_heading :: "string \<Rightarrow> bool" where
  "begins_with_heading s \<longleftrightarrow>
     (\<exists>n ws c rest. 1 \<le> n \<and> n \<le> 6 \<and> ws \<noteq> [] \<and> list_all re_space ws \<and> \<not> re_space c
        \<and> s = replicate n CHR ''#'' @ ws @ c # rest)"

definition has_bullet_line :: "string \<Rightarrow> bool" where
  "has_bullet_line s \<longleftrightarrow>
     (\<exists>pre b ws c rest. (pre = [] \<or> (pre \<noteq> [] \<and> is_newline (last pre)))
        \<and> (b = CHR ''-'' \<or> b = CHR ''*'') \<and> ws \<noteq> [] \<and> list_all re_space ws \<and> \<not> re_space c
        \<and> s = pre @ b # ws @ c # rest)"

definition has_link :: "string \<Rightarrow> bool" where
  "has_link s \<longleftrightarrow>
     (\<exists>pre t u rest. t \<noteq> [] \<and> list_all re_dot t \<and> u \<noteq> [] \<and> list_all re_dot u
        \<and> s = pre @ ''['' @ t @ '']('' @ u @ '')'' @ rest)"

text \<open>
  The classification as C1 words it: the structural heuristics look for a heading line
  or a bullet line among the lines of the body, or for a link.
\<close>

definition heading_line :: "string \<Rightarrow> bool" where
  "heading_line l =
     (let n = length (takeWhile (\<lambda>c. c = CHR ''#'') l); r = drop n l
      in 1 \<le> n \<and> n \<le> 6 \<and> r \<noteq> [] \<and> re_space (hd r) \<and> dropWhile re_space r \<noteq> [])"

definition bullet_line :: "string \<Rightarrow> bool" where
  "bullet_line l =
     (case l of
        [] \<Rightarrow> False
      | b # r \<Rightarrow> (b = CHR ''-'' \<or> b = CHR ''*'') \<and> r \<noteq> [] \<and> re_space (hd r)
                  \<and> dropWhile re_space r \<noteq> [])"

definition claimed_Detect :: "string \<Rightarrow> string \<Rightarrow> string \<Rightarrow> bool" where
  "claimed_Detect url hint body =
     (IsMarkdownContentType hint \<or> IsMarkdownURL url
      \<or> ((list_ex heading_line (split_on CHR 0x0A body)
           \<or> list_ex bullet_line (split_on CHR 0x0A body)
           \<or> MatchString link_pattern body)
          \<and> \<not> looksLikeHTML (TrimSpace body)))"

section \<open>Documents, errors and the environment\<close>

text \<open>
  A Go \<open>error\<close> is a value with a message; \<open>fmt.Errorf("...: %w", err)\<close> puts a text in
  front of the message of the error it wraps. The values of an embedding are never
  computed with, so \<open>float32\<close> is left abstract; a \<open>time.Time\<close> is an instant, an
  integer count of nanoseconds.
\<close>

datatype error = Error string

fun Errorf :: "string \<Rightarrow> error \<Rightarrow> error" where
  "Errorf msg (Error m) = Error (msg @ m)"

fun error_string :: "error \<Rightarrow> string" where
  "error_string (Error m) = m"

typedecl float32

record Document =
  ID :: string
  URL :: string
  Title :: string
  Content :: string
  ContentType :: string
  ScrapedAt :: int
  Tags :: "string list"
  Summary :: string
  Embedding :: "float32 list"

record ScrapeMetadata =
  SourceURL :: string
  Timestamp :: string
  PageCount :: nat
  Pages :: "string list"

record ScrapeResult =
  sr_Prefix :: string
  sr_PageCount :: nat
  sr_SourceURL :: string

record EnrichmentResult =
  enr_Tags :: "string list"
  enr_Summary :: string

text \<open>One response that the crawling library hands to \<open>OnResponse\<close>.\<close>

record Response =
  StatusCode :: nat
  RequestURL :: string
  Body :: string
  HeaderContentType :: string

text \<open>
  What the crawling library does with a start URL: the error of \<open>Visit\<close> if any, the
  responses it hands to \<open>OnResponse\<close> in the order in which their documents are
  appended, and whether \<open>OnRequest\<close> saw the context cancelled before a request.
\<close>

record Crawl =
  visit_error :: "error option"
  responses :: "Response list"
  saw_cancel :: bool

datatype prompt = TagsPrompt string string | SummaryPrompt string string

datatype es_query =
  MultiMatch string "string list" "64 word"
  | RRF string "string list" "float32 list" "64 word" "64 word" "64 word"

datatype es_response =
  TransportError error
  | StatusError string
  | DecodeError error
  | Hits "Document list"

text \<open>
  Everything outside the repository is an input of the model: the URL parser, the
  crawling library, the HTTP client, the clock, the object store's and the index's
  failures, the HTML converter and the two model endpoints. An absent client (a nil
  pointer in the source) is \<open>None\<close>.
\<close>

record Env =
  url_Parse :: "string \<Rightarrow> error + string"
  colly :: "string \<Rightarrow> Crawl"
  ctx_Err :: error
  ctx_done_variant :: "string \<Rightarrow> bool"
  http_get :: "string \<Rightarrow> (nat \<times> string \<times> string) option"
  TryMarkdownFirst :: bool
  now_at_response :: "nat \<Rightarrow> int"
  now_stamp :: string
  now_unixnano :: string
  now_rfc3339 :: string
  put_result :: "nat \<Rightarrow> error option"
  get_result :: "string \<Rightarrow> error option"
  list_result :: "string \<Rightarrow> error option"
  create_index_result :: "error option"
  index_result :: "Document \<Rightarrow> error option"
  es_search :: "(string \<times> Document) list \<Rightarrow> es_query \<Rightarrow> es_response"
  ConvertString :: "string \<Rightarrow> error + string"
  html_title :: "string \<Rightarrow> string"
  llmClient :: "(prompt \<Rightarrow> error + string) option"
  embedClient :: "(string \<Rightarrow> error + float32 list) option"
  ctx_done_at :: "nat \<Rightarrow> bool"
  now_at :: "nat \<Rightarrow> int"
  elapsed :: int

section \<open>Paths (package path)\<close>

fun join_with :: "string \<Rightarrow> string list \<Rightarrow> string" where
  "join_with sep [] = []"
| "join_with sep [x] = x"
| "join_with sep (x # y # ys) = x @ sep @ join_with sep (y # ys)"

text \<open>
  \<open>path.Clean\<close>: the elements of the path are read from left to right; an empty element
  and \<open>.\<close> are dropped, \<open>..\<close> removes the element before it, stays when the path is
  not rooted and there is none, and is dropped at the root.
\<close>

fun clean_step :: "bool \<Rightarrow> string list \<Rightarrow> string \<Rightarrow> string list" where
  "clean_step rooted st e =
     (if e = [] \<or> e = ''.'' then st
      else if e = ''..'' then
        (if st \<noteq> [] \<and> last st \<noteq> ''..'' then butlast st
         else if rooted then st else st @ [e])
      else st @ [e])"

definition path_Clean :: "string \<Rightarrow> string" where
  "path_Clean p =
     (if p = [] then ''.''
      else let rooted = (hd p = CHR ''/'');
               out = join_with ''/'' (foldl (clean_step rooted) [] (split_on CHR ''/'' p))
           in if rooted then CHR ''/'' # out
              else if out = [] then ''.'' else out)"

definition path_Join :: "string list \<Rightarrow> string" where
  "path_Join elems =
     (let es = filter (\<lambda>e. e \<noteq> []) elems
      in if es = [] then [] else path_Clean (join_with ''/'' es))"

definition path_Base :: "string \<Rightarrow> string" where
  "path_Base p =
     (if p = [] then ''.''
      else let q = rev (dropWhile (\<lambda>c. c = CHR ''/'') (rev p))
           in if q = [] then ''/''
              else rev (takeWhile (\<lambda>c. c \<noteq> CHR ''/'') (rev q)))"

section \<open>The snapshot store (internal/storage)\<close>

text \<open>
  The bucket holds page objects and manifest objects by object name. A manifest object
  is kept as the \<open>ScrapeMetadata\<close> value that its JSON text encodes. \<open>oplog\<close> records,
  in order, every write request sent to the store and whether it succeeded.
\<close>

datatype storage_op = PutPageOp string bool | PutManifestOp string bool

record Storage =
  pages :: "(string \<times> string) list"
  manifests :: "(string \<times> ScrapeMetadata) list"
  oplog :: "storage_op list"

fun upsert :: "'k \<Rightarrow> 'v \<Rightarrow> ('k \<times> 'v) list \<Rightarrow> ('k \<times> 'v) list" where
  "upsert k v [] = [(k, v)]"
| "upsert k v ((k', v') # kvs) =
     (if k' = k then (k, v) # kvs else (k', v') # upsert k v kvs)"

definition PutMarkdown ::
  "Env \<Rightarrow> string \<Rightarrow> string \<Rightarrow> string \<Rightarrow> Storage \<Rightarrow> Storage \<times> error option" where
  "PutMarkdown env prefix filename content st =
     (let objectName = path_Join [prefix, ''pages'', filename]
      in case put_result env (length (oplog st)) of
           Some e \<Rightarrow>
             (st\<lparr>oplog := oplog st @ [PutPageOp objectName False]\<rparr>,
              Some (Errorf ''failed to put markdown: '' e))
         | None \<Rightarrow>
             (st\<lparr>pages := upsert objectName content (pages st),
                 oplog := oplog st @ [PutPageOp objectName True]\<rparr>, None))"

definition PutMetadata ::
  "Env \<Rightarrow> string \<Rightarrow> ScrapeMetadata \<Rightarrow> Storage \<Rightarrow> Storage \<times> error option" where
  "PutMetadata env prefix meta st =
     (let objectName = path_Join [prefix, ''metadata.json'']
      in case put_result env (length (oplog st)) of
           Some e \<Rightarrow>
             (st\<lparr>oplog := oplog st @ [PutManifestOp objectName False]\<rparr>,
              Some (Errorf ''failed to put metadata: '' e))
         | None \<Rightarrow>
             (st\<lparr>manifests := upsert objectName meta (manifests st),
                 oplog := oplog st @ [PutManifestOp objectName True]\<rparr>, None))"

definition ListMarkdownFiles :: "Env \<Rightarrow> Storage \<Rightarrow> string \<Rightarrow> error + string list" where
  "ListMarkdownFiles env st prefix =
     (let pagesPrefix = path_Join [prefix, ''pages''] @ ''/''
      in case list_result env pagesPrefix of
           Some e \<Rightarrow> Inl (Errorf ''failed to list objects: '' e)
         | None \<Rightarrow>
             Inr (map path_Base
                   (filter (\<lambda>key. HasSuffix key ''.md'')
                     (filter (\<lambda>key. HasPrefix key pagesPrefix) (map fst (pages st))))))"

definition GetMarkdown :: "Env \<Rightarrow> Storage \<Rightarrow> string \<Rightarrow> string \<Rightarrow> error + string" where
  "GetMarkdown env st prefix filename =
     (let objectName = path_Join [prefix, ''pages'', filename]
      in case get_result env objectName of
           Some e \<Rightarrow> Inl (Errorf ''failed to read markdown: '' e)
         | None \<Rightarrow>
             (case map_of (pages st) objectName of
                None \<Rightarrow> Inl (Error ''failed to read markdown: The specified key does not exist.'')
              | Some content \<Rightarrow> Inr content))"

definition GetMetadata :: "Env \<Rightarrow> Storage \<Rightarrow> string \<Rightarrow> error + ScrapeMetadata" where
  "GetMetadata env st prefix =
     (let objectName = path_Join [prefix, ''metadata.json'']
      in case get_result env objectName of
           Some e \<Rightarrow> Inl (Errorf ''failed to read metadata: '' e)
         | None \<Rightarrow>
             (case map_of (manifests st) objectName of
                None \<Rightarrow> Inl (Error ''failed to read metadata: The specified key does not exist.'')
              | Some meta \<Rightarrow> Inr meta))"

section \<open>The index client (internal/elasticsearch)\<close>

text \<open>
  The index holds one document per id: \<open>Index\<close> with \<open>WithDocumentID\<close> creates the entry
  or replaces the one with that id. Of the log, the entries of level Warn and Error
  written during ingestion and the pipeline are kept.
\<close>

datatype log_entry = LogWarn string | LogError string

record World =
  index :: "(string \<times> Document) list"
  slog :: "log_entry list"

definition CreateIndex :: "Env \<Rightarrow> error option" where
  "CreateIndex env = create_index_result env"

definition IndexDocument :: "Env \<Rightarrow> Document \<Rightarrow> World \<Rightarrow> World \<times> error option" where
  "IndexDocument env doc w =
     (case index_result env doc of
        Some e \<Rightarrow> (w, Some e)
      | None \<Rightarrow> (w\<lparr>index := upsert (ID doc) doc (index w)\<rparr>, None))"

definition Search :: "Env \<Rightarrow> World \<Rightarrow> string \<Rightarrow> 64 word \<Rightarrow> error + Document list" where
  "Search env w query limit =
     (case es_search env (index w)
             (MultiMatch query [''content'', ''title'', ''tags^2'', ''summary''] limit) of
        TransportError e \<Rightarrow> Inl (Errorf ''search failed: '' e)
      | StatusError r \<Rightarrow> Inl (Error (''search error: '' @ r))
      | DecodeError e \<Rightarrow> Inl (Errorf ''failed to decode response: '' e)
      | Hits docs \<Rightarrow> Inr docs)"

text \<open>A nil slice is \<open>None\<close>; an empty slice that is not nil is \<open>Some []\<close>.\<close>

definition HybridSearch ::
  "Env \<Rightarrow> World \<Rightarrow> string \<Rightarrow> float32 list option \<Rightarrow> 64 word \<Rightarrow> error + Document list" where
  "HybridSearch env w query queryEmbedding limit =
     (case queryEmbedding of
        None \<Rightarrow> Search env w query limit
      | Some v \<Rightarrow>
          (case es_search env (index w)
                  (RRF query [''content'', ''title''] v limit (limit * 2) limit) of
             TransportError e \<Rightarrow> Inl (Errorf ''hybrid search failed: '' e)
           | StatusError r \<Rightarrow> Inl (Error (''hybrid search error: '' @ r))
           | DecodeError e \<Rightarrow> Inl (Errorf ''failed to decode response: '' e)
           | Hits docs \<Rightarrow> Inr docs))"

section \<open>The crawler (internal/scraper)\<close>

definition tryFetchMarkdown :: "Env \<Rightarrow> string \<Rightarrow> (string \<times> string) option" where
  "tryFetchMarkdown env url =
     (case http_get env url of
        None \<Rightarrow> None
      | Some (status, content, contentType) \<Rightarrow>
          if status \<noteq> 200 then None
          else if Detect url contentType content then Some (content, contentType)
          else None)"

fun try_variants :: "Env \<Rightarrow> string list \<Rightarrow> (string \<times> string) option" where
  "try_variants env [] = None"
| "try_variants env (variantURL # vs) =
     (if ctx_done_variant env variantURL then None
      else case tryFetchMarkdown env variantURL of
             Some r \<Rightarrow> Some r
           | None \<Rightarrow> try_variants env vs)"

definition tryMarkdownVariants :: "Env \<Rightarrow> string \<Rightarrow> (string \<times> string) option" where
  "tryMarkdownVariants env pageURL = try_variants env (MarkdownURLVariants pageURL)"

definition OnResponse :: "Env \<Rightarrow> nat \<Rightarrow> Response \<Rightarrow> Document list \<Rightarrow> Document list" where
  "OnResponse env i r docs =
     (if StatusCode r \<ge> 400 then docs
      else
        let pageURL = RequestURL r;
            fetched =
              (if TryMarkdownFirst env
               then (case tryMarkdownVariants env pageURL of
                       Some md \<Rightarrow> md
                     | None \<Rightarrow> (Body r, HeaderContentType r))
               else (Body r, HeaderContentType r))
        in docs @ [\<lparr>ID = [], URL = pageURL, Title = [], Content = fst fetched,
                     ContentType = snd fetched, ScrapedAt = now_at_response env i,
                     Tags = [], Summary = [], Embedding = []\<rparr>])"

fun handle_responses :: "Env \<Rightarrow> nat \<Rightarrow> Response list \<Rightarrow> Document list \<Rightarrow> Document list" where
  "handle_responses env i [] docs = docs"
| "handle_responses env i (r # rs) docs =
     handle_responses env (Suc i) rs (OnResponse env i r docs)"

definition Scrape :: "Env \<Rightarrow> string \<Rightarrow> Document list \<times> error option" where
  "Scrape env startURL =
     (case url_Parse env startURL of
        Inl err \<Rightarrow> ([], Some err)
      | Inr host \<Rightarrow>
          let c = colly env startURL;
              docs = handle_responses env 0 (responses c) []
          in case visit_error c of
               Some err \<Rightarrow> (docs, None)
             | None \<Rightarrow>
                 if saw_cancel c then (docs, Some (ctx_Err env))
                 else (docs, None))"

fun put_pages ::
  "Env \<Rightarrow> string \<Rightarrow> Document list \<Rightarrow> Storage \<Rightarrow> string list \<Rightarrow> Storage \<times> string list" where
  "put_pages env prefix [] st pageURLs = (st, pageURLs)"
| "put_pages env prefix (doc # docs) st pageURLs =
     (let filename = GenerateDocumentID (URL doc) @ ''.md'';
          mdContent = Content doc
      in case PutMarkdown env prefix filename mdContent st of
           (st', Some err) \<Rightarrow> put_pages env prefix docs st' pageURLs
         | (st', None) \<Rightarrow> put_pages env prefix docs st' (pageURLs @ [URL doc]))"

definition scrape_prefix :: "Env \<Rightarrow> string \<Rightarrow> string \<Rightarrow> string" where
  "scrape_prefix env startURL host =
     (let timestamp = now_stamp env;
          shortID = take 8 (GenerateDocumentID (startURL @ ''-'' @ now_unixnano env))
      in ''scrapes/'' @ host @ ''/'' @ timestamp @ ''-'' @ shortID)"

text \<open>The part of \<open>ScrapeToS3\<close> after the crawl: the page writes, then the manifest.\<close>

definition write_run ::
  "Env \<Rightarrow> string \<Rightarrow> string \<Rightarrow> Document list \<Rightarrow> Storage \<Rightarrow> Storage \<times> (error + ScrapeResult)" where
  "write_run env startURL prefix docs st =
     (case put_pages env prefix docs st [] of
        (st1, pageURLs) \<Rightarrow>
          let meta = \<lparr>SourceURL = startURL, Timestamp = now_rfc3339 env,
                      PageCount = length pageURLs, Pages = pageURLs\<rparr>
          in case PutMetadata env prefix meta st1 of
               (st2, Some e) \<Rightarrow> (st2, Inl (Errorf ''failed to write metadata: '' e))
             | (st2, None) \<Rightarrow>
                 (st2, Inr \<lparr>sr_Prefix = prefix, sr_PageCount = length pageURLs,
                           sr_SourceURL = startURL\<rparr>))"

definition ScrapeToS3 :: "Env \<Rightarrow> string \<Rightarrow> Storage \<Rightarrow> Storage \<times> (error + ScrapeResult)" where
  "ScrapeToS3 env startURL st =
     (case url_Parse env startURL of
        Inl err \<Rightarrow> (st, Inl (Errorf ''failed to parse URL: '' err))
      | Inr host \<Rightarrow>
          let prefix = scrape_prefix env startURL host
          in case Scrape env startURL of
               (docs, Some err) \<Rightarrow>
                 if length docs = 0 then (st, Inl (Errorf ''scrape failed: '' err))
                 else write_run env startURL prefix docs st
             | (docs, None) \<Rightarrow> write_run env startURL prefix docs st)"

section \<open>The converter and the model clients\<close>

definition Convert :: "Env \<Rightarrow> string \<Rightarrow> error + string" where
  "Convert env htmlContent =
     (if htmlContent = [] then Inr []
      else case ConvertString env htmlContent of
             Inl err \<Rightarrow> Inl err
           | Inr markdown \<Rightarrow> Inr (TrimSpace markdown))"

definition ExtractTitle :: "Env \<Rightarrow> string \<Rightarrow> string" where
  "ExtractTitle env htmlContent = TrimSpace (html_title env htmlContent)"

definition MaxContentForEnrichment :: nat where
  "MaxContentForEnrichment = 20000"

definition MaxInputChars :: nat where
  "MaxInputChars = 20000"

definition EnrichDocument ::
  "(prompt \<Rightarrow> error + string) \<Rightarrow> string \<Rightarrow> string \<Rightarrow> error + EnrichmentResult" where
  "EnrichDocument Complete title content0 =
     (let content = (if length content0 > MaxContentForEnrichment
                     then take MaxContentForEnrichment content0 else content0)
      in case Complete (TagsPrompt title content) of
           Inl err \<Rightarrow> Inl (Errorf ''failed to generate tags: '' err)
         | Inr tagsResp \<Rightarrow>
             let tags = filter (\<lambda>tag. tag \<noteq> [])
                          (map TrimSpace (split_on CHR '','' tagsResp))
             in case Complete (SummaryPrompt title content) of
                  Inl err \<Rightarrow> Inl (Errorf ''failed to generate summary: '' err)
                | Inr summaryResp \<Rightarrow>
                    Inr \<lparr>enr_Tags = tags, enr_Summary = summaryResp\<rparr>)"

definition Embed :: "(string \<Rightarrow> error + float32 list) \<Rightarrow> string \<Rightarrow> error + float32 list" where
  "Embed post text0 =
     (let text = (if length text0 > MaxInputChars then take MaxInputChars text0 else text0)
      in post text)"

section \<open>The ingestion engine (internal/ingestion)\<close>

record IngestResult =
  ing_Prefix :: string
  ing_DocsIndexed :: nat
  ing_Duration :: int
  ing_Errors :: "string list"

fun first_h1 :: "string list \<Rightarrow> string" where
  "first_h1 [] = []"
| "first_h1 (l # ls) =
     (let line = TrimSpace l
      in if HasPrefix line ''# '' then drop 2 line else first_h1 ls)"

definition extractMarkdownTitle :: "string \<Rightarrow> string" where
  "extractMarkdownTitle content = first_h1 (split_on CHR 0x0A content)"

text \<open>The two enrichment steps, shared by the engine and the pipeline.\<close>

definition enrich_llm :: "Env \<Rightarrow> string \<Rightarrow> Document \<Rightarrow> log_entry list \<times> Document" where
  "enrich_llm env pageURL doc =
     (case llmClient env of
        None \<Rightarrow> ([], doc)
      | Some c \<Rightarrow>
          (case EnrichDocument c (Title doc) (Content doc) of
             Inl err \<Rightarrow> ([LogWarn ''failed to enrich document''], doc)
           | Inr enrichment \<Rightarrow>
               ([], doc\<lparr>Tags := enr_Tags enrichment, Summary := enr_Summary enrichment\<rparr>)))"

definition enrich_embedding :: "Env \<Rightarrow> string \<Rightarrow> Document \<Rightarrow> log_entry list \<times> Document" where
  "enrich_embedding env pageURL doc =
     (case embedClient env of
        None \<Rightarrow> ([], doc)
      | Some c \<Rightarrow>
          (case Embed c (Content doc) of
             Inl err \<Rightarrow> ([LogWarn ''failed to generate embedding''], doc)
           | Inr embedding \<Rightarrow> ([], doc\<lparr>Embedding := embedding\<rparr>)))"

definition processDocument ::
  "Env \<Rightarrow> int \<Rightarrow> string \<Rightarrow> string \<Rightarrow> log_entry list \<times> (error + Document)" where
  "processDocument env now pageURL content =
     (let isMarkdown = Detect pageURL [] content;
          converted =
            (if isMarkdown then Inr (content, extractMarkdownTitle content)
             else (case Convert env content of
                     Inl err \<Rightarrow> Inl err
                   | Inr mdContent \<Rightarrow> Inr (mdContent, ExtractTitle env content)))
      in case converted of
           Inl err \<Rightarrow> ([], Inl err)
         | Inr (mdContent, title0) \<Rightarrow>
             let title = (if title0 = [] then pageURL else title0);
                 doc = \<lparr>ID = GenerateDocumentID pageURL, URL = pageURL, Title = title,
                         Content = mdContent, ContentType = [], ScrapedAt = now,
                         Tags = [], Summary = [], Embedding = []\<rparr>;
                 l = enrich_llm env pageURL doc;
                 e = enrich_embedding env pageURL (snd l)
             in (fst l @ fst e, Inr (snd e)))"

definition build_urlToFile :: "string list \<Rightarrow> (string \<rightharpoonup> string)" where
  "build_urlToFile pageURLs =
     foldl (\<lambda>m pageURL. m(GenerateDocumentID pageURL @ ''.md'' \<mapsto> pageURL)) Map.empty pageURLs"

text \<open>The body of the loop of \<open>Ingest\<close> for the file at position \<open>i\<close> of the listing.\<close>

definition ingestFile ::
  "Env \<Rightarrow> Storage \<Rightarrow> string \<Rightarrow> (string \<rightharpoonup> string) \<Rightarrow> nat \<Rightarrow> string
     \<Rightarrow> IngestResult \<times> World \<Rightarrow> IngestResult \<times> World" where
  "ingestFile env st prefix urlToFile i filename rw =
     (case rw of (result, w) \<Rightarrow>
        let found = urlToFile filename;
            pageURL = (case found of Some u \<Rightarrow> u | None \<Rightarrow> filename);
            w1 = (case found of
                    Some u \<Rightarrow> w
                  | None \<Rightarrow> w\<lparr>slog := slog w @ [LogWarn ''no URL found for file'']\<rparr>)
        in case GetMarkdown env st prefix filename of
             Inl err \<Rightarrow>
               (result\<lparr>ing_Errors := ing_Errors result @ [error_string err]\<rparr>, w1)
           | Inr content \<Rightarrow>
               (case processDocument env (now_at env i) pageURL content of
                  (warns, Inl err) \<Rightarrow>
                    (result\<lparr>ing_Errors := ing_Errors result @ [error_string err]\<rparr>,
                     w1\<lparr>slog := slog w1 @ warns\<rparr>)
                | (warns, Inr doc) \<Rightarrow>
                    (case IndexDocument env doc (w1\<lparr>slog := slog w1 @ warns\<rparr>) of
                       (w2, Some err) \<Rightarrow>
                         (result\<lparr>ing_Errors := ing_Errors result @ [error_string err]\<rparr>,
                          w2\<lparr>slog := slog w2 @ [LogError ''failed to index document'']\<rparr>)
                     | (w2, None) \<Rightarrow>
                         (result\<lparr>ing_DocsIndexed := ing_DocsIndexed result + 1\<rparr>, w2))))"

fun ingest_loop ::
  "Env \<Rightarrow> Storage \<Rightarrow> string \<Rightarrow> (string \<rightharpoonup> string) \<Rightarrow> nat \<Rightarrow> string list
     \<Rightarrow> IngestResult \<times> World \<Rightarrow> IngestResult \<times> World" where
  "ingest_loop env st prefix urlToFile i [] rw = rw"
| "ingest_loop env st prefix urlToFile i (filename # files) rw =
     (if ctx_done_at env i
      then (case rw of (result, w) \<Rightarrow>
              (result\<lparr>ing_Errors := ing_Errors result @ [''context cancelled'']\<rparr>, w))
      else ingest_loop env st prefix urlToFile (Suc i) files
             (ingestFile env st prefix urlToFile i filename rw))"

definition Ingest :: "Env \<Rightarrow> Storage \<Rightarrow> string \<Rightarrow> World \<Rightarrow> World \<times> (error + IngestResult)" where
  "Ingest env st prefix w =
     (case CreateIndex env of
        Some err \<Rightarrow> (w, Inl err)
      | None \<Rightarrow>
          (case GetMetadata env st prefix of
             Inl err \<Rightarrow> (w, Inl err)
           | Inr meta \<Rightarrow>
               let urlToFile = build_urlToFile (Pages meta)
               in case ListMarkdownFiles env st prefix of
                    Inl err \<Rightarrow> (w, Inl err)
                  | Inr files \<Rightarrow>
                      (case ingest_loop env st prefix urlToFile 0 files
                              (\<lparr>ing_Prefix = prefix, ing_DocsIndexed = 0,
                                ing_Duration = 0, ing_Errors = []\<rparr>, w) of
                         (result, w') \<Rightarrow>
                           (w', Inr (result\<lparr>ing_Duration := elapsed env\<rparr>)))))"

section \<open>The direct pipeline (internal/pipeline)\<close>




section \<open>Example environments\<close>

text \<open>
  An environment in which nothing fails and nothing is cancelled: the start URL parses,
  the crawl hands over two pages, every store and index request succeeds, the converter
  returns its input, and no model client is configured.
\<close>

definition page_a :: Response where
  "page_a = \<lparr>StatusCode = 200, RequestURL = ''https://example.com/a'',
              Body = ''# A'', HeaderContentType = ''text/markdown''\<rparr>"

definition page_b :: Response where
  "page_b = \<lparr>StatusCode = 200, RequestURL = ''https://example.com/b'',
              Body = ''<html><body>b</body></html>'', HeaderContentType = ''text/html''\<rparr>"

definition quiet_env :: Env where
  "quiet_env =
     \<lparr>url_Parse = (\<lambda>u. Inr ''example.com''),
      colly = (\<lambda>u. \<lparr>visit_error = None, responses = [page_a, page_b], saw_cancel = False\<rparr>),
      ctx_Err = Error ''context canceled'',
      ctx_done_variant = (\<lambda>u. False),
      http_get = (\<lambda>u. None),
      TryMarkdownFirst = False,
      now_at_response = (\<lambda>i. 0),
      now_stamp = ''2024-12-04T17-30-00'',
      now_unixnano = ''1733333400000000000'',
      now_rfc3339 = ''2024-12-04T17:30:00Z'',
      put_result = (\<lambda>n. None),
      get_result = (\<lambda>k. None),
      list_result = (\<lambda>k. None),
      create_index_result = None,
      index_result = (\<lambda>d. None),
      es_search = (\<lambda>idx q. Hits []),
      ConvertString = (\<lambda>h. Inr h),
      html_title = (\<lambda>h. []),
      llmClient = None,
      embedClient = None,
      ctx_done_at = (\<lambda>i. False),
      now_at = (\<lambda>i. 0),
      elapsed = 0\<rparr>"

text \<open>The same crawl, but the context is cancelled before the crawl has ended.\<close>

definition cancel_env :: Env where
  "cancel_env =
     quiet_env\<lparr>colly := (\<lambda>u. \<lparr>visit_error = None, responses = [page_a], saw_cancel = True\<rparr>)\<rparr>"

definition empty_store :: Storage where
  "empty_store = \<lparr>pages = [], manifests = [], oplog = []\<rparr>"

definition empty_world :: World where
  "empty_world = \<lparr>index = [], slog = []\<rparr>"

fun is_page_op :: "storage_op \<Rightarrow> bool" where
  "is_page_op (PutPageOp k ok) = True"
| "is_page_op (PutManifestOp k ok) = False"

text \<open>The store after the crawl of the quiet environment, written from an empty store.\<close>

definition run_store :: Storage where
  "run_store = fst (ScrapeToS3 quiet_env ''https://example.com/a'' empty_store)"





text \<open>
  The ids under which a run of the loop of \<open>Ingest\<close> writes to the index, in order: one
  for every file that is read, processed and accepted by the index.
\<close>

definition file_ids ::
  "Env \<Rightarrow> Storage \<Rightarrow> string \<Rightarrow> (string \<rightharpoonup> string) \<Rightarrow> nat \<Rightarrow> string \<Rightarrow> string list" where
  "file_ids env st prefix urlToFile i filename =
     (case GetMarkdown env st prefix filename of
        Inl err \<Rightarrow> []
      | Inr content \<Rightarrow>
          (case snd (processDocument env (now_at env i)
                       (case urlToFile filename of Some u \<Rightarrow> u | None \<Rightarrow> filename) content) of
             Inl err \<Rightarrow> []
           | Inr doc \<Rightarrow> if index_result env doc = None then [ID doc] else []))"

fun loop_ids ::
  "Env \<Rightarrow> Storage \<Rightarrow> string \<Rightarrow> (string \<rightharpoonup> string) \<Rightarrow> nat \<Rightarrow> string list \<Rightarrow> string list" where
  "loop_ids env st prefix urlToFile i [] = []"
| "loop_ids env st prefix urlToFile i (filename # files) =
     (if ctx_done_at env i then []
      else file_ids env st prefix urlToFile i filename
           @ loop_ids env st prefix urlToFile (Suc i) files)"

text \<open>The keys of an index after writes under the given ids: a new id is appended.\<close>

fun add_keys :: "string list \<Rightarrow> string list \<Rightarrow> string list" where
  "add_keys ks [] = ks"
| "add_keys ks (k # ids) = add_keys (if k \<in> set ks then ks else ks @ [k]) ids"

text \<open>A later run: the clock has advanced and a tag and summary client is configured.\<close>

definition tagging_env :: Env where
  "tagging_env =
     quiet_env\<lparr>now_at := (\<lambda>i. 5), llmClient := Some (\<lambda>p. Inr ''go, docs'')\<rparr>"

text \<open>The index after the first and after the second ingestion of the stored run.\<close>

definition first_index :: World where
  "first_index =
     \<lparr>index = [(''2dce0a4c50441bfc'',
                 \<lparr>ID = ''2dce0a4c50441bfc'', URL = ''https://example.com/a'', Title = ''A'',
                  Content = ''# A'', ContentType = [], ScrapedAt = 0, Tags = [],
                  Summary = [], Embedding = []\<rparr>),
                (''d7fe568b31ae0fb9'',
                 \<lparr>ID = ''d7fe568b31ae0fb9'', URL = ''https://example.com/b'',
                  Title = ''https://example.com/b'', Content = ''<html><body>b</body></html>'',
                  ContentType = [], ScrapedAt = 0, Tags = [],
                  Summary = [], Embedding = []\<rparr>)],
      slog = []\<rparr>"

definition second_index :: World where
  "second_index =
     \<lparr>index = [(''2dce0a4c50441bfc'',
                 \<lparr>ID = ''2dce0a4c50441bfc'', URL = ''https://example.com/a'', Title = ''A'',
                  Content = ''# A'', ContentType = [], ScrapedAt = 5, Tags = [''go'', ''docs''],
                  Summary = ''go, docs'', Embedding = []\<rparr>),
                (''d7fe568b31ae0fb9'',
                 \<lparr>ID = ''d7fe568b31ae0fb9'', URL = ''https://example.com/b'',
                  Title = ''https://example.com/b'', Content = ''<html><body>b</body></html>'',
                  ContentType = [], ScrapedAt = 5, Tags = [''go'', ''docs''],
                  Summary = ''go, docs'', Embedding = []\<rparr>)],
      slog = []\<rparr>"

section \<open>Properties of the document id\<close>

lemma length_word_bytes: "length (word_bytes w) = 4"
  by (simp add: word_bytes_def)

lemma length_digest_bytes: "length (digest_bytes s) = 32"
  by (simp add: digest_bytes_def length_word_bytes split: prod.split)

lemma length_Sum256: "length (Sum256 s) = 32"
  by (simp add: Sum256_def Let_def length_digest_bytes)

lemma length_EncodeToString: "length (EncodeToString bs) = 2 * length bs"
  by (induction bs) (simp_all add: EncodeToString_def)

lemma hexdigit_in: "hexdigit n \<in> set ''0123456789abcdef''"
proof -
  have "n mod 16 < length ''0123456789abcdef''" by simp
  then show ?thesis unfolding hexdigit_def by (rule nth_mem)
qed

lemma set_EncodeToString: "set (EncodeToString bs) \<subseteq> set ''0123456789abcdef''"
  unfolding EncodeToString_def using hexdigit_in by auto

lemma length_GenerateDocumentID: "length (GenerateDocumentID u) = 16"
  by (simp add: GenerateDocumentID_def length_EncodeToString length_Sum256)

lemma set_GenerateDocumentID: "set (GenerateDocumentID u) \<subseteq> set ''0123456789abcdef''"
  unfolding GenerateDocumentID_def
  using set_take_subset set_EncodeToString by fast

text \<open>
  C2. The document id is a function of the URL alone: the first 16 characters of the
  hexadecimal encoding of the SHA-256 digest of the URL's bytes. It always has length
  16 and consists of lower-case hexadecimal digits. The id is a HOL function of \<open>u\<close>
  and of nothing else, so two crawls of one URL compute the same id.
\<close>

theorem GenerateDocumentID_deterministic_fixed_length:
  "GenerateDocumentID u = take 16 (EncodeToString (Sum256 u))
   \<and> length (GenerateDocumentID u) = 16
   \<and> set (GenerateDocumentID u) \<subseteq> set ''0123456789abcdef''"
  using length_GenerateDocumentID [of u] set_GenerateDocumentID [of u]
  by (simp add: GenerateDocumentID_def)

section \<open>Properties of the string functions\<close>









section \<open>Markdown URL variants\<close>


section \<open>Known answers of the document id\<close>

text \<open>The ids of the URLs of the example environments, as SHA-256 gives them.\<close>

lemma id_page_a: "GenerateDocumentID ''https://example.com/a'' = ''2dce0a4c50441bfc''"
  by code_simp

lemma id_page_b: "GenerateDocumentID ''https://example.com/b'' = ''d7fe568b31ae0fb9''"
  by code_simp

lemma id_run: "GenerateDocumentID ''https://example.com/a-1733333400000000000'' = ''ea046ff2b09a9f80''"
  by code_simp

section \<open>Hybrid search without an embedding\<close>

text \<open>
  C4. With no embedding supplied (a nil slice), hybrid search is the plain lexical
  search: it sends the same query with the same limit and returns what \<open>Search\<close>
  returns, results and errors alike.
\<close>

theorem HybridSearch_without_embedding:
  "HybridSearch env w q None n = Search env w q n"
  by (simp add: HybridSearch_def)

section \<open>The outcome of a crawl\<close>

lemmas run_defs =
  ScrapeToS3_def write_run_def Scrape_def quiet_env_def cancel_env_def OnResponse_def
  page_a_def page_b_def scrape_prefix_def PutMarkdown_def PutMetadata_def empty_store_def
  path_Join_def path_Clean_def id_page_a id_page_b id_run Let_def



lemma upsert_map_of: "map_of (upsert k v kvs) k' = (if k' = k then Some v else map_of kvs k')"
  by (induction kvs) auto

lemma PutMarkdown_effect:
  "PutMarkdown env prefix f c st = (st', r) \<Longrightarrow>
     (\<exists>ok. oplog st' = oplog st @ [PutPageOp (path_Join [prefix, ''pages'', f]) ok])
     \<and> manifests st' = manifests st"
  by (auto simp: PutMarkdown_def Let_def split: option.splits)

lemma put_pages_oplog:
  "put_pages env prefix docs st urls = (st', urls') \<Longrightarrow>
     \<exists>ops. oplog st' = oplog st @ ops \<and> length ops = length docs \<and> list_all is_page_op ops
           \<and> manifests st' = manifests st"
proof (induction docs arbitrary: st urls)
  case Nil
  then show ?case by simp
next
  case (Cons d ds)
  obtain st1 r where pm: "PutMarkdown env prefix (GenerateDocumentID (URL d) @ ''.md'') (Content d) st = (st1, r)"
    by (cases "PutMarkdown env prefix (GenerateDocumentID (URL d) @ ''.md'') (Content d) st")
  from PutMarkdown_effect [OF pm] obtain ok where
    o1: "oplog st1 = oplog st @ [PutPageOp (path_Join [prefix, ''pages'', GenerateDocumentID (URL d) @ ''.md'']) ok]"
    and m1: "manifests st1 = manifests st" by blast
  from Cons.prems pm obtain urls1 where rest: "put_pages env prefix ds st1 urls1 = (st', urls')"
    by (cases r) (auto simp: Let_def)
  from Cons.IH [OF rest] obtain ops where
    "oplog st' = oplog st1 @ ops" "length ops = length ds" "list_all is_page_op ops"
    "manifests st' = manifests st1" by blast
  with o1 m1 have "oplog st' = oplog st @ (PutPageOp (path_Join [prefix, ''pages'', GenerateDocumentID (URL d) @ ''.md'']) ok # ops)
      \<and> length (PutPageOp (path_Join [prefix, ''pages'', GenerateDocumentID (URL d) @ ''.md'']) ok # ops) = length (d # ds)
      \<and> list_all is_page_op (PutPageOp (path_Join [prefix, ''pages'', GenerateDocumentID (URL d) @ ''.md'']) ok # ops)
      \<and> manifests st' = manifests st"
    by simp
  then show ?case by blast
qed

lemma write_run_oplog:
  assumes "write_run env u prefix docs st = (st', r)"
  shows "\<exists>page_ops ok.
           oplog st' = oplog st @ page_ops @ [PutManifestOp (path_Join [prefix, ''metadata.json'']) ok]
           \<and> length page_ops = length docs \<and> list_all is_page_op page_ops
           \<and> (ok \<longleftrightarrow> (\<exists>res. r = Inr res))
           \<and> (\<forall>res. r = Inr res \<longrightarrow> sr_Prefix res = prefix \<and>
                 (\<exists>meta. map_of (manifests st') (path_Join [prefix, ''metadata.json'']) = Some meta
                    \<and> SourceURL meta = u \<and> PageCount meta = sr_PageCount res
                    \<and> length (Pages meta) = sr_PageCount res))"
proof -
  obtain st1 urls where pp: "put_pages env prefix docs st [] = (st1, urls)"
    by (cases "put_pages env prefix docs st []")
  from put_pages_oplog [OF pp] obtain ops where
    ops: "oplog st1 = oplog st @ ops" "length ops = length docs" "list_all is_page_op ops" by blast
  show ?thesis
  proof (cases "put_result env (length (oplog st1))")
    case None
    with assms pp ops show ?thesis
      by (auto simp: write_run_def PutMetadata_def Let_def upsert_map_of)
  next
    case (Some e)
    with assms pp ops show ?thesis
      by (auto simp: write_run_def PutMetadata_def Let_def)
  qed
qed

lemma ScrapeToS3_cases:
  assumes "ScrapeToS3 env u st = (st', r)"
  shows "(st' = st \<and> (\<exists>e. r = Inl e))
         \<or> (\<exists>host. url_Parse env u = Inr host
              \<and> write_run env u (scrape_prefix env u host) (fst (Scrape env u)) st = (st', r))"
  using assms
  by (auto simp: ScrapeToS3_def Let_def split: sum.splits prod.splits option.splits if_splits)




section \<open>The manifest is written last\<close>

text \<open>
  C7. The write requests that \<open>ScrapeToS3\<close> sends to the store are page writes followed
  by at most one manifest write, which is the last request and comes after one page
  write for every collected page. When \<open>ScrapeToS3\<close> returns a result, that manifest
  write succeeded, and the store holds the manifest of the run under the result's prefix.
\<close>

theorem ScrapeToS3_manifest_last:
  assumes "ScrapeToS3 env u st = (st', r)"
  shows "\<exists>page_ops tl.
           oplog st' = oplog st @ page_ops @ tl \<and> list_all is_page_op page_ops
           \<and> (tl = [] \<or> (\<exists>k ok. tl = [PutManifestOp k ok]
                            \<and> length page_ops = length (fst (Scrape env u))))
           \<and> (\<forall>res. r = Inr res \<longrightarrow>
                 tl = [PutManifestOp (path_Join [sr_Prefix res, ''metadata.json'']) True]
                 \<and> (\<exists>meta. map_of (manifests st') (path_Join [sr_Prefix res, ''metadata.json'']) = Some meta
                       \<and> SourceURL meta = u \<and> PageCount meta = sr_PageCount res))"
proof -
  from ScrapeToS3_cases [OF assms] show ?thesis
  proof
    assume "st' = st \<and> (\<exists>e. r = Inl e)"
    then have "oplog st' = oplog st @ [] @ [] \<and> list_all is_page_op []
        \<and> (\<forall>res. r \<noteq> Inr res)" by auto
    then show ?thesis by blast
  next
    assume "\<exists>host. url_Parse env u = Inr host
              \<and> write_run env u (scrape_prefix env u host) (fst (Scrape env u)) st = (st', r)"
    then obtain host where
      wr: "write_run env u (scrape_prefix env u host) (fst (Scrape env u)) st = (st', r)" by blast
    from write_run_oplog [OF wr] obtain page_ops ok where
      a: "oplog st' = oplog st @ page_ops @ [PutManifestOp (path_Join [scrape_prefix env u host, ''metadata.json'']) ok]"
      and b: "length page_ops = length (fst (Scrape env u))" "list_all is_page_op page_ops"
      and c: "ok \<longleftrightarrow> (\<exists>res. r = Inr res)"
      and d: "\<forall>res. r = Inr res \<longrightarrow> sr_Prefix res = scrape_prefix env u host \<and>
                 (\<exists>meta. map_of (manifests st') (path_Join [scrape_prefix env u host, ''metadata.json'']) = Some meta
                    \<and> SourceURL meta = u \<and> PageCount meta = sr_PageCount res
                    \<and> length (Pages meta) = sr_PageCount res)"
      by blast
    have e: "\<forall>res. r = Inr res \<longrightarrow>
                 [PutManifestOp (path_Join [scrape_prefix env u host, ''metadata.json'']) ok]
                   = [PutManifestOp (path_Join [sr_Prefix res, ''metadata.json'']) True]
                 \<and> (\<exists>meta. map_of (manifests st') (path_Join [sr_Prefix res, ''metadata.json'']) = Some meta
                       \<and> SourceURL meta = u \<and> PageCount meta = sr_PageCount res)"
      using c d by auto
    show ?thesis
      apply (rule exI [of _ page_ops])
      apply (rule exI [of _ "[PutManifestOp (path_Join [scrape_prefix env u host, ''metadata.json'']) ok]"])
      using a b e by blast
  qed
qed

theorem ScrapeToS3_manifest_last_witness:
  "ScrapeToS3 quiet_env ''https://example.com/a'' empty_store =
     (\<lparr>pages = [(''scrapes/example.com/2024-12-04T17-30-00-ea046ff2/pages/2dce0a4c50441bfc.md'', ''# A''),
                (''scrapes/example.com/2024-12-04T17-30-00-ea046ff2/pages/d7fe568b31ae0fb9.md'',
                 ''<html><body>b</body></html>'')],
       manifests = [(''scrapes/example.com/2024-12-04T17-30-00-ea046ff2/metadata.json'',
                     \<lparr>SourceURL = ''https://example.com/a'', Timestamp = ''2024-12-04T17:30:00Z'',
                      PageCount = 2,
                      Pages = [''https://example.com/a'', ''https://example.com/b'']\<rparr>)],
       oplog = [PutPageOp ''scrapes/example.com/2024-12-04T17-30-00-ea046ff2/pages/2dce0a4c50441bfc.md'' True,
                PutPageOp ''scrapes/example.com/2024-12-04T17-30-00-ea046ff2/pages/d7fe568b31ae0fb9.md'' True,
                PutManifestOp ''scrapes/example.com/2024-12-04T17-30-00-ea046ff2/metadata.json'' True]\<rparr>,
      Inr \<lparr>sr_Prefix = ''scrapes/example.com/2024-12-04T17-30-00-ea046ff2'', sr_PageCount = 2,
           sr_SourceURL = ''https://example.com/a''\<rparr>)
   \<and> (\<exists>page_ops.
         oplog (fst (ScrapeToS3 quiet_env ''https://example.com/a'' empty_store)) =
           page_ops @ [PutManifestOp
                         (path_Join [''scrapes/example.com/2024-12-04T17-30-00-ea046ff2'',
                                     ''metadata.json'']) True]
         \<and> list_all is_page_op page_ops)"
proof -
  have run: "ScrapeToS3 quiet_env ''https://example.com/a'' empty_store =
     (\<lparr>pages = [(''scrapes/example.com/2024-12-04T17-30-00-ea046ff2/pages/2dce0a4c50441bfc.md'', ''# A''),
                (''scrapes/example.com/2024-12-04T17-30-00-ea046ff2/pages/d7fe568b31ae0fb9.md'',
                 ''<html><body>b</body></html>'')],
       manifests = [(''scrapes/example.com/2024-12-04T17-30-00-ea046ff2/metadata.json'',
                     \<lparr>SourceURL = ''https://example.com/a'', Timestamp = ''2024-12-04T17:30:00Z'',
                      PageCount = 2,
                      Pages = [''https://example.com/a'', ''https://example.com/b'']\<rparr>)],
       oplog = [PutPageOp ''scrapes/example.com/2024-12-04T17-30-00-ea046ff2/pages/2dce0a4c50441bfc.md'' True,
                PutPageOp ''scrapes/example.com/2024-12-04T17-30-00-ea046ff2/pages/d7fe568b31ae0fb9.md'' True,
                PutManifestOp ''scrapes/example.com/2024-12-04T17-30-00-ea046ff2/metadata.json'' True]\<rparr>,
      Inr \<lparr>sr_Prefix = ''scrapes/example.com/2024-12-04T17-30-00-ea046ff2'', sr_PageCount = 2,
           sr_SourceURL = ''https://example.com/a''\<rparr>)"
    (is "_ = (?st, Inr ?res)")
    by (simp add: run_defs)
  from ScrapeToS3_manifest_last [OF run] obtain page_ops tl where
    a: "oplog ?st = oplog empty_store @ page_ops @ tl" and b: "list_all is_page_op page_ops"
    and c: "\<forall>res. Inr ?res = (Inr res :: error + ScrapeResult) \<longrightarrow>
              tl = [PutManifestOp (path_Join [sr_Prefix res, ''metadata.json'']) True]"
    by blast
  from c have "tl = [PutManifestOp (path_Join [sr_Prefix ?res, ''metadata.json'']) True]"
    by blast
  with a b have "oplog (fst (ScrapeToS3 quiet_env ''https://example.com/a'' empty_store)) =
           page_ops @ [PutManifestOp
                         (path_Join [''scrapes/example.com/2024-12-04T17-30-00-ea046ff2'',
                                     ''metadata.json'']) True]
         \<and> list_all is_page_op page_ops"
    unfolding run by (simp add: empty_store_def)
  with run show ?thesis by blast
qed

section \<open>Looking up the URL of a stored file\<close>




lemma enrich_llm_fields:
  "ID (snd (enrich_llm env u d)) = ID d \<and> URL (snd (enrich_llm env u d)) = URL d
   \<and> Title (snd (enrich_llm env u d)) = Title d \<and> Content (snd (enrich_llm env u d)) = Content d
   \<and> ContentType (snd (enrich_llm env u d)) = ContentType d
   \<and> ScrapedAt (snd (enrich_llm env u d)) = ScrapedAt d
   \<and> Embedding (snd (enrich_llm env u d)) = Embedding d"
  by (simp add: enrich_llm_def split: option.splits sum.splits)

lemma enrich_embedding_fields:
  "ID (snd (enrich_embedding env u d)) = ID d \<and> URL (snd (enrich_embedding env u d)) = URL d
   \<and> Title (snd (enrich_embedding env u d)) = Title d
   \<and> Content (snd (enrich_embedding env u d)) = Content d
   \<and> ContentType (snd (enrich_embedding env u d)) = ContentType d
   \<and> ScrapedAt (snd (enrich_embedding env u d)) = ScrapedAt d
   \<and> Tags (snd (enrich_embedding env u d)) = Tags d
   \<and> Summary (snd (enrich_embedding env u d)) = Summary d"
  by (simp add: enrich_embedding_def split: option.splits sum.splits)







section \<open>Failing enrichment\<close>















lemma run_store_eq:
  "run_store =
     \<lparr>pages = [(''scrapes/example.com/2024-12-04T17-30-00-ea046ff2/pages/2dce0a4c50441bfc.md'', ''# A''),
                (''scrapes/example.com/2024-12-04T17-30-00-ea046ff2/pages/d7fe568b31ae0fb9.md'',
                 ''<html><body>b</body></html>'')],
       manifests = [(''scrapes/example.com/2024-12-04T17-30-00-ea046ff2/metadata.json'',
                     \<lparr>SourceURL = ''https://example.com/a'', Timestamp = ''2024-12-04T17:30:00Z'',
                      PageCount = 2,
                      Pages = [''https://example.com/a'', ''https://example.com/b'']\<rparr>)],
       oplog = [PutPageOp ''scrapes/example.com/2024-12-04T17-30-00-ea046ff2/pages/2dce0a4c50441bfc.md'' True,
                PutPageOp ''scrapes/example.com/2024-12-04T17-30-00-ea046ff2/pages/d7fe568b31ae0fb9.md'' True,
                PutManifestOp ''scrapes/example.com/2024-12-04T17-30-00-ea046ff2/metadata.json'' True]\<rparr>"
  by (simp add: run_store_def run_defs)

lemmas detect_defs =
  Detect_def IsMarkdownContentType_def IsMarkdownURL_def IsMarkdownContent_def looksLikeHTML_def
  hasMarkdownPatterns_def header_pattern_def list_pattern_def link_pattern_def
  re_space_def re_nonspace_def re_dot_def re_chr_def re_plus_def any_bytes_def is_newline_def
  ToLower_def lower_byte_def HasPrefix_def HasSuffix_def TrimSpace_def asciiSpace_def

lemma re_upto_numeral:
  "re_upto (numeral k) r = Plus One (Times r (re_upto (pred_numeral k) r))"
  by (simp add: numeral_eq_Suc)

lemmas run_ingest_defs =
  Ingest_def CreateIndex_def GetMetadata_def ListMarkdownFiles_def build_urlToFile_def
  ingestFile_def processDocument_def GetMarkdown_def IndexDocument_def enrich_llm_def
  enrich_embedding_def Convert_def ExtractTitle_def extractMarkdownTitle_def
  path_Join_def path_Clean_def path_Base_def Let_def id_page_a id_page_b

lemma quiet_ingest:
  "Ingest quiet_env run_store ''scrapes/example.com/2024-12-04T17-30-00-ea046ff2'' empty_world =
    (\<lparr>index = [(''2dce0a4c50441bfc'',
                 \<lparr>ID = ''2dce0a4c50441bfc'', URL = ''https://example.com/a'', Title = ''A'',
                  Content = ''# A'', ContentType = [], ScrapedAt = 0, Tags = [],
                  Summary = [], Embedding = []\<rparr>),
                (''d7fe568b31ae0fb9'',
                 \<lparr>ID = ''d7fe568b31ae0fb9'', URL = ''https://example.com/b'',
                  Title = ''https://example.com/b'', Content = ''<html><body>b</body></html>'',
                  ContentType = [], ScrapedAt = 0, Tags = [],
                  Summary = [], Embedding = []\<rparr>)],
      slog = []\<rparr>,
     Inr \<lparr>ing_Prefix = ''scrapes/example.com/2024-12-04T17-30-00-ea046ff2'',
          ing_DocsIndexed = 2, ing_Duration = 0, ing_Errors = []\<rparr>)"
  by (simp add: run_store_eq run_ingest_defs detect_defs re_upto_numeral quiet_env_def empty_world_def)



section \<open>Ingesting a stored run twice\<close>

lemma upsert_keys:
  "map fst (upsert k v kvs) = (if k \<in> set (map fst kvs) then map fst kvs else map fst kvs @ [k])"
  by (induction kvs) force+

lemma add_keys_append: "add_keys ks (xs @ ys) = add_keys (add_keys ks xs) ys"
  by (induction xs arbitrary: ks) simp_all

lemma add_keys_mono: "set ks \<subseteq> set (add_keys ks ids)"
proof (induction ids arbitrary: ks)
  case Nil
  then show ?case by simp
next
  case (Cons k ids)
  have "set ks \<subseteq> set (if k \<in> set ks then ks else ks @ [k])" by auto
  also have "\<dots> \<subseteq> set (add_keys (if k \<in> set ks then ks else ks @ [k]) ids)"
    by (rule Cons.IH)
  finally show ?case by simp
qed

lemma add_keys_present: "set ids \<subseteq> set ks \<Longrightarrow> add_keys ks ids = ks"
  by (induction ids arbitrary: ks) simp_all

lemma add_keys_covers: "set ids \<subseteq> set (add_keys ks ids)"
proof (induction ids arbitrary: ks)
  case Nil
  then show ?case by simp
next
  case (Cons k ids)
  have "k \<in> set (if k \<in> set ks then ks else ks @ [k])" by simp
  then have "k \<in> set (add_keys (if k \<in> set ks then ks else ks @ [k]) ids)"
    using add_keys_mono by blast
  with Cons.IH [of "if k \<in> set ks then ks else ks @ [k]"] show ?case by simp
qed

lemma add_keys_twice: "add_keys (add_keys ks ids) ids = add_keys ks ids"
  by (rule add_keys_present) (rule add_keys_covers)

lemma processDocument_outcome:
  "map_sum id ID (snd (processDocument env now u c)) =
     (if Detect u [] c then Inr (GenerateDocumentID u)
      else case Convert env c of Inl e \<Rightarrow> Inl e | Inr md \<Rightarrow> Inr (GenerateDocumentID u))"
  by (simp add: processDocument_def Let_def enrich_llm_fields enrich_embedding_fields
      split: sum.splits)

lemma ingestFile_ids:
  "ing_DocsIndexed (fst (ingestFile env st prefix m i f (r, w))) =
     ing_DocsIndexed r + length (file_ids env st prefix m i f)
   \<and> map fst (index (snd (ingestFile env st prefix m i f (r, w)))) =
     add_keys (map fst (index w)) (file_ids env st prefix m i f)"
proof (cases "GetMarkdown env st prefix f")
  case (Inl e)
  then show ?thesis
    by (simp add: ingestFile_def file_ids_def Let_def split: option.splits)
next
  case (Inr content)
  obtain ws res where pd: "processDocument env (now_at env i)
      (case m f of Some u \<Rightarrow> u | None \<Rightarrow> f) content = (ws, res)"
    by (cases "processDocument env (now_at env i) (case m f of Some u \<Rightarrow> u | None \<Rightarrow> f) content")
  show ?thesis
  proof (cases res)
    case (Inl e)
    with Inr pd show ?thesis
      by (simp add: ingestFile_def file_ids_def Let_def split: option.splits)
  next
    case doc: (Inr doc)
    with Inr pd show ?thesis
      by (cases "index_result env doc")
        (simp_all add: ingestFile_def file_ids_def Let_def IndexDocument_def upsert_keys
          split: option.splits)
  qed
qed

lemma ingest_loop_ids:
  "ing_DocsIndexed (fst (ingest_loop env st prefix m i files (r, w))) =
     ing_DocsIndexed r + length (loop_ids env st prefix m i files)
   \<and> map fst (index (snd (ingest_loop env st prefix m i files (r, w)))) =
     add_keys (map fst (index w)) (loop_ids env st prefix m i files)"
proof (induction files arbitrary: i r w)
  case Nil
  then show ?case by simp
next
  case (Cons f fs)
  show ?case
  proof (cases "ctx_done_at env i")
    case True
    then show ?thesis by simp
  next
    case False
    obtain r1 w1 where step: "ingestFile env st prefix m i f (r, w) = (r1, w1)"
      by (cases "ingestFile env st prefix m i f (r, w)")
    from ingestFile_ids [of env st prefix m i f r w] step
    have a: "ing_DocsIndexed r1 = ing_DocsIndexed r + length (file_ids env st prefix m i f)"
      and b: "map fst (index w1) = add_keys (map fst (index w)) (file_ids env st prefix m i f)"
      by simp_all
    from Cons.IH [of "Suc i" r1 w1] False step a b show ?thesis
      by (simp add: add_keys_append)
  qed
qed

lemma file_ids_shared:
  assumes get: "get_result env2 = get_result env1"
      and conv: "ConvertString env2 = ConvertString env1"
      and accept: "\<forall>d d'. ID d = ID d' \<longrightarrow> (index_result env2 d' = None \<longleftrightarrow> index_result env1 d = None)"
  shows "file_ids env2 st prefix m i f = file_ids env1 st prefix m i f"
proof -
  have g: "GetMarkdown env2 st prefix f = GetMarkdown env1 st prefix f"
    by (simp add: GetMarkdown_def get)
  have c: "Convert env2 x = Convert env1 x" for x
    by (simp add: Convert_def conv)
  show ?thesis
  proof (cases "GetMarkdown env1 st prefix f")
    case (Inl e)
    then show ?thesis by (simp add: file_ids_def g)
  next
    case (Inr content)
    define u where "u = (case m f of Some u \<Rightarrow> u | None \<Rightarrow> f)"
    have o: "map_sum id ID (snd (processDocument env2 (now_at env2 i) u content)) =
             map_sum id ID (snd (processDocument env1 (now_at env1 i) u content))"
      by (simp add: processDocument_outcome c)
    show ?thesis
    proof (cases "snd (processDocument env1 (now_at env1 i) u content)")
      case e1: (Inl e)
      with o obtain e' where "snd (processDocument env2 (now_at env2 i) u content) = Inl e'"
        by (cases "snd (processDocument env2 (now_at env2 i) u content)") auto
      with e1 Inr show ?thesis by (simp add: file_ids_def g u_def)
    next
      case d1: (Inr d1)
      with o obtain d2 where d2: "snd (processDocument env2 (now_at env2 i) u content) = Inr d2"
        and "ID d2 = ID d1"
        by (cases "snd (processDocument env2 (now_at env2 i) u content)") auto
      with accept have "index_result env2 d2 = None \<longleftrightarrow> index_result env1 d1 = None" by metis
      with d1 d2 \<open>ID d2 = ID d1\<close> Inr show ?thesis by (simp add: file_ids_def g u_def)
    qed
  qed
qed

lemma loop_ids_shared:
  assumes get: "get_result env2 = get_result env1"
      and conv: "ConvertString env2 = ConvertString env1"
      and ctx: "ctx_done_at env2 = ctx_done_at env1"
      and accept: "\<forall>d d'. ID d = ID d' \<longrightarrow> (index_result env2 d' = None \<longleftrightarrow> index_result env1 d = None)"
  shows "loop_ids env2 st prefix m i files = loop_ids env1 st prefix m i files"
  by (induction files arbitrary: i) (simp_all add: ctx file_ids_shared [OF get conv accept])


lemma Ingest_ids:
  assumes "Ingest env st prefix w = (w', Inr r)"
  shows "\<exists>meta files.
           GetMetadata env st prefix = Inr meta \<and> ListMarkdownFiles env st prefix = Inr files
           \<and> CreateIndex env = None
           \<and> ing_DocsIndexed r = length (loop_ids env st prefix (build_urlToFile (Pages meta)) 0 files)
           \<and> map fst (index w') =
                add_keys (map fst (index w))
                  (loop_ids env st prefix (build_urlToFile (Pages meta)) 0 files)"
proof -
  from assms obtain meta files where
    m: "GetMetadata env st prefix = Inr meta" and l: "ListMarkdownFiles env st prefix = Inr files"
    and c: "CreateIndex env = None"
    by (auto simp: Ingest_def Let_def split: option.splits sum.splits prod.splits)
  obtain r0 w0 where loop: "ingest_loop env st prefix (build_urlToFile (Pages meta)) 0 files
       (\<lparr>ing_Prefix = prefix, ing_DocsIndexed = 0, ing_Duration = 0, ing_Errors = []\<rparr>, w) = (r0, w0)"
    by (cases "ingest_loop env st prefix (build_urlToFile (Pages meta)) 0 files
       (\<lparr>ing_Prefix = prefix, ing_DocsIndexed = 0, ing_Duration = 0, ing_Errors = []\<rparr>, w)")
  with assms m l c have res: "w' = w0" "r = r0\<lparr>ing_Duration := elapsed env\<rparr>"
    by (simp_all add: Ingest_def Let_def)
  from ingest_loop_ids [of env st prefix "build_urlToFile (Pages meta)" 0 files
      "\<lparr>ing_Prefix = prefix, ing_DocsIndexed = 0, ing_Duration = 0, ing_Errors = []\<rparr>" w] loop res
  have "ing_DocsIndexed r = length (loop_ids env st prefix (build_urlToFile (Pages meta)) 0 files)
      \<and> map fst (index w') =
           add_keys (map fst (index w)) (loop_ids env st prefix (build_urlToFile (Pages meta)) 0 files)"
    by simp
  with m l c show ?thesis by blast
qed


text \<open>
  C9. Two ingestion runs of the same stored prefix, the second started on the index the
  first one left. The runs may differ in the clock and in what the model clients
  return; they see the same store, the same converter and the same cancellation, and
  the index accepts or refuses a write by the document's id alone, alike in both runs.
  Then the second run indexes as many documents as the first, it writes under the same
  ids in the same order, and the list of ids in the index is the same after the second
  run as before it: every write replaced an entry, none was appended.
\<close>

theorem reingest_idempotent:
  assumes get: "get_result env2 = get_result env1"
      and lst: "list_result env2 = list_result env1"
      and conv: "ConvertString env2 = ConvertString env1"
      and ctx: "ctx_done_at env2 = ctx_done_at env1"
      and accept: "\<forall>d d'. ID d = ID d' \<longrightarrow>
                     (index_result env2 d' = None \<longleftrightarrow> index_result env1 d = None)"
      and run1: "Ingest env1 st prefix w0 = (w1, Inr r1)"
      and run2: "Ingest env2 st prefix w1 = (w2, Inr r2)"
  shows "ing_DocsIndexed r2 = ing_DocsIndexed r1
       \<and> map fst (index w2) = map fst (index w1)
       \<and> (\<exists>ids. map fst (index w1) = add_keys (map fst (index w0)) ids
                \<and> map fst (index w2) = add_keys (map fst (index w1)) ids
                \<and> length ids = ing_DocsIndexed r1)"
proof -
  from Ingest_ids [OF run1] obtain meta files where
    m1: "GetMetadata env1 st prefix = Inr meta" and l1: "ListMarkdownFiles env1 st prefix = Inr files"
    and n1: "ing_DocsIndexed r1 = length (loop_ids env1 st prefix (build_urlToFile (Pages meta)) 0 files)"
    and k1: "map fst (index w1) = add_keys (map fst (index w0))
               (loop_ids env1 st prefix (build_urlToFile (Pages meta)) 0 files)"
    by blast
  from Ingest_ids [OF run2] obtain meta' files' where
    m2: "GetMetadata env2 st prefix = Inr meta'" and l2: "ListMarkdownFiles env2 st prefix = Inr files'"
    and n2: "ing_DocsIndexed r2 = length (loop_ids env2 st prefix (build_urlToFile (Pages meta')) 0 files')"
    and k2: "map fst (index w2) = add_keys (map fst (index w1))
               (loop_ids env2 st prefix (build_urlToFile (Pages meta')) 0 files')"
    by blast
  have "GetMetadata env2 st prefix = GetMetadata env1 st prefix"
    by (simp add: GetMetadata_def get)
  with m1 m2 have meta: "meta' = meta" by simp
  have "ListMarkdownFiles env2 st prefix = ListMarkdownFiles env1 st prefix"
    by (simp add: ListMarkdownFiles_def lst)
  with l1 l2 have files: "files' = files" by simp
  define ids where "ids = loop_ids env1 st prefix (build_urlToFile (Pages meta)) 0 files"
  have same: "loop_ids env2 st prefix (build_urlToFile (Pages meta')) 0 files' = ids"
    unfolding meta files ids_def by (rule loop_ids_shared [OF get conv ctx accept])
  from k1 have k1': "map fst (index w1) = add_keys (map fst (index w0)) ids"
    by (simp add: ids_def)
  from k2 same have k2': "map fst (index w2) = add_keys (map fst (index w1)) ids" by simp
  have "map fst (index w2) = map fst (index w1)"
    unfolding k2' unfolding k1' by (rule add_keys_twice)
  moreover have "ing_DocsIndexed r2 = ing_DocsIndexed r1"
    using n1 n2 same by (simp add: ids_def)
  moreover have "length ids = ing_DocsIndexed r1"
    using n1 by (simp add: ids_def)
  ultimately show ?thesis using k1' k2' by blast
qed

theorem reingest_idempotent_witness:
  "Ingest quiet_env run_store ''scrapes/example.com/2024-12-04T17-30-00-ea046ff2'' empty_world =
     (first_index,
      Inr \<lparr>ing_Prefix = ''scrapes/example.com/2024-12-04T17-30-00-ea046ff2'',
           ing_DocsIndexed = 2, ing_Duration = 0, ing_Errors = []\<rparr>)
   \<and> Ingest tagging_env run_store ''scrapes/example.com/2024-12-04T17-30-00-ea046ff2'' first_index =
     (second_index,
      Inr \<lparr>ing_Prefix = ''scrapes/example.com/2024-12-04T17-30-00-ea046ff2'',
           ing_DocsIndexed = 2, ing_Duration = 0, ing_Errors = []\<rparr>)
   \<and> map fst (index second_index) = map fst (index first_index)
   \<and> length (index second_index) = 2"
proof -
  let ?P = "''scrapes/example.com/2024-12-04T17-30-00-ea046ff2''"
  let ?R = "\<lparr>ing_Prefix = ?P, ing_DocsIndexed = 2, ing_Duration = 0, ing_Errors = []\<rparr>"
  have run1: "Ingest quiet_env run_store ?P empty_world = (first_index, Inr ?R)"
    by (simp add: quiet_ingest first_index_def)
  have run2: "Ingest tagging_env run_store ?P first_index = (second_index, Inr ?R)"
    by (simp add: first_index_def second_index_def run_store_eq run_ingest_defs detect_defs
        re_upto_numeral tagging_env_def quiet_env_def EnrichDocument_def
        MaxContentForEnrichment_def)
  have shared: "get_result tagging_env = get_result quiet_env"
    "list_result tagging_env = list_result quiet_env"
    "ConvertString tagging_env = ConvertString quiet_env"
    "ctx_done_at tagging_env = ctx_done_at quiet_env"
    by (simp_all add: tagging_env_def)
  have accept: "\<forall>d d'. ID d = ID d' \<longrightarrow>
      (index_result tagging_env d' = None \<longleftrightarrow> index_result quiet_env d = None)"
    by (simp add: tagging_env_def quiet_env_def)
  from reingest_idempotent [OF shared accept run1 run2]
  have "map fst (index second_index) = map fst (index first_index)" by blast
  moreover have "length (index second_index) = 2" by (simp add: second_index_def)
  ultimately show ?thesis using run1 run2 by blast
qed

section \<open>Recovering the URL of a stored page\<close>












end
